theory Spec2Isabelle
  imports Complex_Main "HOL-Library.Word"
begin

section \<open>Data model of \<^verbatim>\<open>movis/layer/composition.py\<close>\<close>

text \<open>
  Python floats (times, offsets, durations) are modelled as real numbers; the comparisons
  of the source are order comparisons, and NaN is outside the model. Python integers are
  \<^typ>\<open>int\<close>. An exception is a value of \<open>error\<close>; an operation that mutates the
  composition returns the composition after the call together with its outcome, so that
  "nothing was changed before the raise" is a statement about the returned state.
\<close>

datatype error = KeyError | ValueError | AssertionError | StopIteration | ZeroDivisionError

text \<open>The enumerations imported from \<^verbatim>\<open>..enum\<close> and \<^verbatim>\<open>..imgproc\<close>; only the members
  that the composition names are distinguished.\<close>

datatype cache_type = COMPOSITION

datatype blending_mode = NORMAL | BlendingModeOther string

datatype direction = CENTER | DirectionOther string

text \<open>A layer is an opaque callable with a \<^verbatim>\<open>duration\<close>; \<open>layer_ident\<close> tells layers apart.\<close>

record layer =
  layer_ident :: nat
  layer_duration :: real

record transform =
  position :: "real \<times> real"

text \<open>The fields that \<^verbatim>\<open>add_layer\<close> passes to the constructor of \<^verbatim>\<open>Component\<close>. A component
  value stands for the Python object: two references to equal values are references to the
  same object.\<close>

record component =
  name :: string
  layer :: layer
  transform :: transform
  offset :: real
  start_time :: real
  end_time :: real
  visible :: bool
  blending_mode :: blending_mode
  origin_point :: direction

text \<open>A frame is a numpy array of \<^verbatim>\<open>uint8\<close>: its shape and its elements in row-major order.\<close>

record frame =
  shape :: "nat list"
  pixels :: "8 word list"

text \<open>An element of the tuple built by \<^verbatim>\<open>get_key\<close>: the tag \<^verbatim>\<open>CacheType.COMPOSITION\<close>, Python's
  \<^verbatim>\<open>None\<close>, or the value returned by \<^verbatim>\<open>Component.get_key\<close> (a tuple, never \<^verbatim>\<open>None\<close>).\<close>

datatype 'k hashable = CacheTypeKey cache_type | NoneKey | ComponentKey 'k

text \<open>The \<^verbatim>\<open>diskcache.Cache\<close>: its entries and the byte budget it was created with.\<close>

record 'k cache =
  entries :: "'k hashable list \<rightharpoonup> frame"
  size_limit :: nat

text \<open>
  The fields of \<^verbatim>\<open>Composition\<close>. \<open>name_to_layer\<close> holds the entries written into the
  \<^verbatim>\<open>WeakValueDictionary\<close>; which of them can still be read depends on the referent being
  alive, see \<open>weak_get\<close> below. The field \<^verbatim>\<open>_size\<close> is called \<open>size_wh\<close>, (width, height).
\<close>

record 'k composition =
  layers :: "component list"
  name_to_layer :: "string \<rightharpoonup> component"
  duration :: real
  cache :: "'k cache"
  preview_level :: int
  size_wh :: "int \<times> int"

definition init :: "int \<times> int \<Rightarrow> real \<Rightarrow> 'k composition" where
  "init sz dur =
     \<lparr>layers = [], name_to_layer = Map.empty, duration = dur,
      cache = \<lparr>entries = Map.empty, size_limit = 1024 * 1024 * 1024\<rparr>,
      preview_level = 1, size_wh = sz\<rparr>"

definition keys :: "'k composition \<Rightarrow> string list" where
  "keys c = map name (layers c)"

section \<open>The cache key\<close>

text \<open>
  \<^verbatim>\<open>Component.get_key\<close> lives in \<^verbatim>\<open>component.py\<close> and is a parameter \<open>ckey\<close> here.
  The loop of \<^verbatim>\<open>Composition.get_key\<close> appends one element per component to \<open>layer_keys\<close>.
\<close>

fun get_key_loop ::
  "(component \<Rightarrow> real \<Rightarrow> 'k) \<Rightarrow> real \<Rightarrow> component list \<Rightarrow> 'k hashable list \<Rightarrow> 'k hashable list"
where
  "get_key_loop ckey t [] layer_keys = layer_keys"
| "get_key_loop ckey t (component # rest) layer_keys =
     (let layer_time = t - offset component in
      if layer_time < start_time component \<or> end_time component \<le> layer_time
      then get_key_loop ckey t rest (layer_keys @ [NoneKey])
      else get_key_loop ckey t rest (layer_keys @ [ComponentKey (ckey component layer_time)]))"

definition get_key :: "(component \<Rightarrow> real \<Rightarrow> 'k) \<Rightarrow> 'k composition \<Rightarrow> real \<Rightarrow> 'k hashable list" where
  "get_key ckey c t = get_key_loop ckey t (layers c) [CacheTypeKey COMPOSITION]"

text \<open>Modelled from the spec: \<^verbatim>\<open>Component.is_active\<close> is not part of \<^verbatim>\<open>composition.py\<close>;
  the spec defines it as the half-open window test on the layer-local time together with
  the visibility flag.\<close>

definition is_active :: "component \<Rightarrow> real \<Rightarrow> bool" where
  "is_active cpt global_time =
     (start_time cpt \<le> global_time - offset cpt \<and> global_time - offset cpt < end_time cpt
      \<and> visible cpt)"

text \<open>The key element that the spec's words give a component: absent when not active,
  else the component's own sub-key at the layer-local time.\<close>

definition spec_key_entry :: "(component \<Rightarrow> real \<Rightarrow> 'k) \<Rightarrow> real \<Rightarrow> component \<Rightarrow> 'k hashable" where
  "spec_key_entry ckey t cpt =
     (if is_active cpt t then ComponentKey (ckey cpt (t - offset cpt)) else NoneKey)"

text \<open>The key element that the source computes: only the time window is looked at.\<close>

definition in_window :: "component \<Rightarrow> real \<Rightarrow> bool" where
  "in_window cpt t = (start_time cpt \<le> t - offset cpt \<and> t - offset cpt < end_time cpt)"

definition window_key_entry :: "(component \<Rightarrow> real \<Rightarrow> 'k) \<Rightarrow> real \<Rightarrow> component \<Rightarrow> 'k hashable" where
  "window_key_entry ckey t cpt =
     (if in_window cpt t then ComponentKey (ckey cpt (t - offset cpt)) else NoneKey)"

section \<open>The name index and the layer sequence\<close>

text \<open>
  \<^verbatim>\<open>_name_to_layer\<close> is a \<^verbatim>\<open>WeakValueDictionary\<close>: an entry can be read for as long as its
  value is strongly referenced somewhere, and is discarded once it is not (reference
  counting discards it at once). The strong references are those of the list \<^verbatim>\<open>_layers\<close> and
  those held outside the composition (a variable of the caller, the alpha-matte link of
  another component); the latter are the list \<open>held\<close> that every read of the index takes.
\<close>

definition alive :: "component list \<Rightarrow> 'k composition \<Rightarrow> component \<Rightarrow> bool" where
  "alive held c v = (v \<in> set (layers c) \<or> v \<in> set held)"

definition weak_get :: "component list \<Rightarrow> 'k composition \<Rightarrow> string \<Rightarrow> component option" where
  "weak_get held c key =
     (case name_to_layer c key of
        None \<Rightarrow> None
      | Some v \<Rightarrow> if alive held c v then Some v else None)"

definition weak_contains :: "component list \<Rightarrow> 'k composition \<Rightarrow> string \<Rightarrow> bool" where
  "weak_contains held c key = (weak_get held c key \<noteq> None)"

definition getitem :: "component list \<Rightarrow> 'k composition \<Rightarrow> string \<Rightarrow> error + component" where
  "getitem held c key =
     (case weak_get held c key of None \<Rightarrow> Inl KeyError | Some v \<Rightarrow> Inr v)"

text \<open>
  \<^verbatim>\<open>name in self._layers\<close> searches a list of components for a string. Python compares
  the string with each element by \<^verbatim>\<open>==\<close>; \<^verbatim>\<open>Component\<close> is taken to inherit the default
  equality of objects, under which values of different classes are never equal. Python
  values of the two classes are kept apart by their constructor.
\<close>

datatype pyobj = PyStr string | PyComponent component

definition py_in :: "pyobj \<Rightarrow> pyobj list \<Rightarrow> bool" where
  "py_in x xs = (x \<in> set xs)"

text \<open>The decimal numeral of a natural number, as the f-string \<^verbatim>\<open>f"layer_{n}"\<close> prints it.\<close>

fun str_nat :: "nat \<Rightarrow> string" where
  "str_nat n =
     (if n < 10 then [char_of (48 + n)]
      else str_nat (n div 10) @ [char_of (48 + n mod 10)])"

declare str_nat.simps [simp del]

text \<open>\<^verbatim>\<open>add_layer\<close>; an optional argument whose default is \<^verbatim>\<open>None\<close> is an option.\<close>

definition add_layer ::
  "'k composition \<Rightarrow> layer \<Rightarrow> string option \<Rightarrow> transform option \<Rightarrow> real \<Rightarrow> real \<Rightarrow> real option
     \<Rightarrow> bool \<Rightarrow> blending_mode \<Rightarrow> direction \<Rightarrow> 'k composition \<times> (error + component)"
where
  "add_layer c lyr name_opt transform_opt off st end_opt vis mode origin =
     (let nm = (case name_opt of None \<Rightarrow> ''layer_'' @ str_nat (length (layers c)) | Some n \<Rightarrow> n) in
      if py_in (PyStr nm) (map PyComponent (layers c)) then (c, Inl KeyError)
      else
        let en = (case end_opt of Some e \<Rightarrow> e | None \<Rightarrow> layer_duration lyr);
            tr = (case transform_opt of
                    Some tr \<Rightarrow> tr
                  | None \<Rightarrow> \<lparr>position = (real_of_int (fst (size_wh c)) / 2,
                                         real_of_int (snd (size_wh c)) / 2)\<rparr>);
            component = \<lparr>name = nm, layer = lyr, transform = tr, offset = off, start_time = st,
                         end_time = en, visible = vis, blending_mode = mode,
                         origin_point = origin\<rparr>
        in (c\<lparr>layers := layers c @ [component],
               name_to_layer := (name_to_layer c)(nm \<mapsto> component)\<rparr>,
            Inr component))"

text \<open>The value assigned by \<^verbatim>\<open>composition[key] = value\<close>: a component, a layer (a
  callable), or anything else.\<close>

datatype setitem_value = ValComponent component | ValLayer layer | ValOther

definition setitem ::
  "'k composition \<Rightarrow> string \<Rightarrow> setitem_value \<Rightarrow> 'k composition \<times> (error + unit)"
where
  "setitem c key val =
     (case val of
        ValComponent v \<Rightarrow>
          (c\<lparr>layers := layers c @ [v], name_to_layer := (name_to_layer c)(key \<mapsto> v)\<rparr>, Inr ())
      | ValLayer lyr \<Rightarrow>
          (case add_layer c lyr (Some key) None 0 0 None True NORMAL CENTER of
             (c', Inl e) \<Rightarrow> (c', Inl e)
           | (c', Inr _) \<Rightarrow> (c', Inr ()))
      | ValOther \<Rightarrow> (c, Inl ValueError))"

text \<open>\<^verbatim>\<open>next(i for i in range(len(self._layers)) if self._layers[i].name == name)\<close>: the
  first index whose component has the name, or \<^verbatim>\<open>StopIteration\<close> when there is none.\<close>

fun first_index :: "string \<Rightarrow> component list \<Rightarrow> nat \<Rightarrow> nat option" where
  "first_index nm [] i = None"
| "first_index nm (x # xs) i = (if name x = nm then Some i else first_index nm xs (Suc i))"

definition list_pop :: "'a list \<Rightarrow> nat \<Rightarrow> 'a list" where
  "list_pop xs i = take i xs @ drop (Suc i) xs"

definition pop_layer ::
  "component list \<Rightarrow> 'k composition \<Rightarrow> string \<Rightarrow> 'k composition \<times> (error + component)"
where
  "pop_layer held c nm =
     (if \<not> weak_contains held c nm then (c, Inl KeyError)
      else
        (case first_index nm (layers c) 0 of
           None \<Rightarrow> (c, Inl StopIteration)
         | Some index \<Rightarrow> (c\<lparr>layers := list_pop (layers c) index\<rparr>, Inr (layers c ! index))))"

definition delitem :: "component list \<Rightarrow> 'k composition \<Rightarrow> string \<Rightarrow> 'k composition \<times> (error + unit)" where
  "delitem held c key =
     (case pop_layer held c key of
        (c', Inl e) \<Rightarrow> (c', Inl e)
      | (c', Inr _) \<Rightarrow> (c', Inr ()))"

section \<open>Scoped preview levels\<close>

text \<open>
  \<^verbatim>\<open>preview\<close> and \<^verbatim>\<open>final\<close> are context managers. The block of the \<^verbatim>\<open>with\<close> statement is
  \<open>body\<close>: it takes the composition, returns it as it left it, and either completes
  (\<open>None\<close>) or raises (\<open>Some e\<close>). The \<^verbatim>\<open>finally\<close> clause runs in both cases, and the
  exception of the block is raised again after it.
\<close>

definition preview ::
  "'k composition \<Rightarrow> int \<Rightarrow> ('k composition \<Rightarrow> 'k composition \<times> error option)
     \<Rightarrow> 'k composition \<times> error option"
where
  "preview c level body =
     (if \<not> level > 0 then (c, Some AssertionError)
      else
        let original_level = preview_level c;
            (c', raised) = body (c\<lparr>preview_level := level\<rparr>)
        in (c'\<lparr>preview_level := original_level\<rparr>, raised))"

definition final ::
  "'k composition \<Rightarrow> ('k composition \<Rightarrow> 'k composition \<times> error option)
     \<Rightarrow> 'k composition \<times> error option"
where
  "final c body =
     (let original_level = preview_level c;
          (c', raised) = body (c\<lparr>preview_level := 1\<rparr>)
      in (c'\<lparr>preview_level := original_level\<rparr>, raised))"

section \<open>Rendering through the cache\<close>

text \<open>
  The cache is a \<^verbatim>\<open>diskcache.Cache\<close> with a byte budget. Reading it changes nothing; a
  store is followed by the eviction that the library runs against the budget, which is the
  parameter \<open>cull\<close>. The test \<^verbatim>\<open>key in self._cache\<close> and the read \<^verbatim>\<open>self._cache[key]\<close> that
  follows it are one lookup in \<open>entries\<close>.
\<close>

definition cache_delitem :: "'k cache \<Rightarrow> 'k hashable list \<Rightarrow> 'k cache" where
  "cache_delitem ca key = ca\<lparr>entries := (entries ca)(key := None)\<rparr>"

definition cache_setitem ::
  "('k cache \<Rightarrow> 'k cache) \<Rightarrow> 'k cache \<Rightarrow> 'k hashable list \<Rightarrow> frame \<Rightarrow> 'k cache"
where
  "cache_setitem cull ca key fr = cull (ca\<lparr>entries := (entries ca)(key \<mapsto> fr)\<rparr>)"

text \<open>\<^verbatim>\<open>np.zeros(shape, dtype=np.uint8)\<close>: a negative dimension raises \<^verbatim>\<open>ValueError\<close>.\<close>

definition np_zeros :: "int list \<Rightarrow> error + frame" where
  "np_zeros shp =
     (if list_ex (\<lambda>d. d < 0) shp then Inl ValueError
      else Inr \<lparr>shape = map nat shp, pixels = replicate (prod_list (map nat shp)) 0\<rparr>)"

text \<open>
  \<^verbatim>\<open>Component._composite\<close> lives in \<^verbatim>\<open>component.py\<close> and is the parameter \<open>composite\<close>: it
  takes the component, the frame so far, the time and the preview level, and returns the
  next frame. The loop of \<^verbatim>\<open>__call__\<close> threads the frame through the components in order.
\<close>

fun composite_loop ::
  "(component \<Rightarrow> frame \<Rightarrow> real \<Rightarrow> int \<Rightarrow> frame) \<Rightarrow> real \<Rightarrow> int \<Rightarrow> component list \<Rightarrow> frame \<Rightarrow> frame"
where
  "composite_loop composite t L [] fr = fr"
| "composite_loop composite t L (component # rest) fr =
     composite_loop composite t L rest (composite component fr t L)"

text \<open>The part of \<^verbatim>\<open>__call__\<close> after the cache lookup: render into a zero frame and store it.\<close>

definition recompute ::
  "(component \<Rightarrow> frame \<Rightarrow> real \<Rightarrow> int \<Rightarrow> frame) \<Rightarrow> ('k cache \<Rightarrow> 'k cache) \<Rightarrow> 'k composition
     \<Rightarrow> real \<Rightarrow> int list \<Rightarrow> 'k hashable list \<Rightarrow> 'k composition \<times> (error + frame)"
where
  "recompute composite cull c t current_shape key =
     (case np_zeros (current_shape @ [4]) of
        Inl e \<Rightarrow> (c, Inl e)
      | Inr zero_frame \<Rightarrow>
          let fr = composite_loop composite t (preview_level c) (layers c) zero_frame
          in (c\<lparr>cache := cache_setitem cull (cache c) key fr\<rparr>, Inr fr))"

definition call ::
  "(component \<Rightarrow> real \<Rightarrow> 'k) \<Rightarrow> (component \<Rightarrow> frame \<Rightarrow> real \<Rightarrow> int \<Rightarrow> frame) \<Rightarrow> ('k cache \<Rightarrow> 'k cache)
     \<Rightarrow> 'k composition \<Rightarrow> real \<Rightarrow> 'k composition \<times> (error + frame)"
where
  "call ckey composite cull c t =
     (let L = preview_level c in
      if L = 0 then (c, Inl ZeroDivisionError)
      else
        let current_shape = [snd (size_wh c) div L, fst (size_wh c) div L];
            key = get_key ckey c t
        in
          (case entries (cache c) key of
             Some cached_frame \<Rightarrow>
               if map int (take 2 (shape cached_frame)) = current_shape then (c, Inr cached_frame)
               else recompute composite cull (c\<lparr>cache := cache_delitem (cache c) key\<rparr>) t
                      current_shape key
           | None \<Rightarrow> recompute composite cull c t current_shape key))"

text \<open>The working resolution \<^verbatim>\<open>(height // L, width // L)\<close> that \<^verbatim>\<open>__call__\<close> computes.\<close>

definition current_shape :: "'k composition \<Rightarrow> int list" where
  "current_shape c =
     [snd (size_wh c) div preview_level c, fst (size_wh c) div preview_level c]"

text \<open>
  What the properties of \<^verbatim>\<open>__call__\<close> ask of its collaborators. \<open>keeps_shape\<close>: compositing
  a component returns a frame of the shape it was given. \<open>rgba_frames\<close>: every frame in the
  cache has three dimensions, the last of them 4. \<open>cull_keeps\<close>: the eviction after a store
  leaves the entry of the given key alone. \<open>cull_only_evicts\<close>: the eviction adds and
  changes no entry.
\<close>

definition keeps_shape :: "(component \<Rightarrow> frame \<Rightarrow> real \<Rightarrow> int \<Rightarrow> frame) \<Rightarrow> bool" where
  "keeps_shape composite = (\<forall>cpt fr t L. shape (composite cpt fr t L) = shape fr)"

definition rgba_frames :: "'k cache \<Rightarrow> bool" where
  "rgba_frames ca =
     (\<forall>key fr. entries ca key = Some fr \<longrightarrow> length (shape fr) = 3 \<and> shape fr ! 2 = 4)"

definition cull_keeps :: "('k cache \<Rightarrow> 'k cache) \<Rightarrow> 'k hashable list \<Rightarrow> bool" where
  "cull_keeps cull key = (\<forall>ca. entries (cull ca) key = entries ca key)"

definition cull_only_evicts :: "('k cache \<Rightarrow> 'k cache) \<Rightarrow> bool" where
  "cull_only_evicts cull =
     (\<forall>ca key fr. entries (cull ca) key = Some fr \<longrightarrow> entries ca key = Some fr)"

section \<open>Concrete inputs\<close>

text \<open>Inputs on which the definitions are evaluated.\<close>

definition layer0 :: layer where
  "layer0 = \<lparr>layer_ident = 0, layer_duration = 2\<rparr>"

definition mk_component :: "string \<Rightarrow> real \<Rightarrow> real \<Rightarrow> real \<Rightarrow> bool \<Rightarrow> component" where
  "mk_component n off st en vis =
     \<lparr>name = n, layer = layer0, transform = \<lparr>position = (50, 50)\<rparr>, offset = off,
      start_time = st, end_time = en, visible = vis, blending_mode = NORMAL,
      origin_point = CENTER\<rparr>"

definition name_time_key :: "component \<Rightarrow> real \<Rightarrow> string \<times> real" where
  "name_time_key cpt layer_time = (name cpt, layer_time)"

definition with_layers :: "component list \<Rightarrow> (string \<times> real) composition" where
  "with_layers cs =
     (init (100, 100) 2)\<lparr>layers := cs, name_to_layer := map_of (map (\<lambda>x. (name x, x)) cs)\<rparr>"

definition comp_a :: component where
  "comp_a = mk_component ''a'' 0 0 2 True"

definition comp_b :: component where
  "comp_b = mk_component ''b'' 0 0 2 True"

text \<open>A composition of 4 by 2 pixels at a given preview level, a compositing step that
  adds one to every channel, and a cache that never evicts.\<close>

definition small :: "component list \<Rightarrow> int \<Rightarrow> (string \<times> real) composition" where
  "small cs L = (with_layers cs)\<lparr>size_wh := (4, 2), preview_level := L\<rparr>"

definition brighten :: "component \<Rightarrow> frame \<Rightarrow> real \<Rightarrow> int \<Rightarrow> frame" where
  "brighten cpt fr t L = fr\<lparr>pixels := map (\<lambda>p. p + 1) (pixels fr)\<rparr>"

definition no_cull :: "'k cache \<Rightarrow> 'k cache" where
  "no_cull ca = ca"

definition low_frame :: frame where
  "low_frame = \<lparr>shape = [1, 2, 4], pixels = replicate 8 1\<rparr>"

definition high_frame :: frame where
  "high_frame = \<lparr>shape = [2, 4, 4], pixels = replicate 32 1\<rparr>"

definition key_a0 :: "(string \<times> real) hashable list" where
  "key_a0 = [CacheTypeKey COMPOSITION, ComponentKey (''a'', 0)]"

definition cached_low :: "int \<Rightarrow> (string \<times> real) composition" where
  "cached_low L =
     (small [comp_a] L)\<lparr>cache := (cache (small [comp_a] L))\<lparr>entries := [key_a0 \<mapsto> low_frame]\<rparr>\<rparr>"

definition cached_high :: "int \<Rightarrow> (string \<times> real) composition" where
  "cached_high L =
     (small [comp_a] L)\<lparr>cache := (cache (small [comp_a] L))\<lparr>entries := [key_a0 \<mapsto> high_frame]\<rparr>\<rparr>"

text \<open>The composition left by popping the only layer \<open>comp_a\<close>: the list is empty, the
  entry written into the name index is still there.\<close>

definition popped_a :: "(string \<times> real) composition" where
  "popped_a = (with_layers [comp_a])\<lparr>layers := []\<rparr>"

lemmas eval_defs = call_def Let_def recompute_def np_zeros_def cache_setitem_def cache_delitem_def
  no_cull_def cached_low_def cached_high_def low_frame_def high_frame_def brighten_def
  small_def with_layers_def init_def comp_a_def comp_b_def mk_component_def name_time_key_def
  key_a0_def get_key_def popped_a_def layer0_def

section \<open>Properties of the cache key\<close>

lemma get_key_loop_map:
  "get_key_loop ckey t cs acc = acc @ map (window_key_entry ckey t) cs"
  by (induction cs arbitrary: acc) (simp_all add: window_key_entry_def in_window_def Let_def not_le not_less)

lemma get_key_map:
  "get_key ckey c t = CacheTypeKey COMPOSITION # map (window_key_entry ckey t) (layers c)"
  by (simp add: get_key_def get_key_loop_map)

lemma get_key_nth:
  "i < length (layers c) \<Longrightarrow> get_key ckey c t ! Suc i = window_key_entry ckey t (layers c ! i)"
  by (simp add: get_key_map)

text \<open>
  Claim C1, as the spec words it: the element of a component is absent exactly when the
  component is not active, where active asks for the time window and for \<open>visible\<close>.
  The source looks at the window only, so a hidden component inside its window gets its
  own sub-key: for one hidden component with window \<open>[0, 1)\<close> at time \<open>1/2\<close> the key
  holds a sub-key where the spec's words give an absent element.
\<close>

theorem get_key_hidden_component_counterexample:
  "get_key name_time_key (with_layers [mk_component ''a'' 0 0 1 False]) (1/2)
     = [CacheTypeKey COMPOSITION, ComponentKey (''a'', 1/2)]
   \<and> \<not> is_active (mk_component ''a'' 0 0 1 False) (1/2)
   \<and> get_key name_time_key (with_layers [mk_component ''a'' 0 0 1 False]) (1/2)
     \<noteq> CacheTypeKey COMPOSITION
         # map (spec_key_entry name_time_key (1/2))
             (layers (with_layers [mk_component ''a'' 0 0 1 False]))"
  by (simp add: get_key_def with_layers_def init_def mk_component_def name_time_key_def
      is_active_def spec_key_entry_def)

text \<open>
  Claim C1, amended: the key of \<^verbatim>\<open>get_key(t)\<close> is the composition tag followed by one
  element per direct component, in layer order; the element is absent exactly when the
  layer-local time \<open>t - offset\<close> lies outside \<open>[start_time, end_time)\<close>, whatever
  \<open>visible\<close> is, and is otherwise the component's own sub-key at that layer-local time.
\<close>

theorem get_key_window:
  "length (get_key ckey c t) = Suc (length (layers c))
   \<and> get_key ckey c t ! 0 = CacheTypeKey COMPOSITION
   \<and> (\<forall>i < length (layers c).
        (get_key ckey c t ! Suc i = NoneKey) = (\<not> in_window (layers c ! i) t)
        \<and> (in_window (layers c ! i) t \<longrightarrow>
             get_key ckey c t ! Suc i
               = ComponentKey (ckey (layers c ! i) (t - offset (layers c ! i)))))"
  by (simp add: get_key_map window_key_entry_def)

theorem get_key_window_witness:
  "get_key name_time_key
     (with_layers [mk_component ''a'' 0 0 1 False, mk_component ''b'' 0 1 2 True]) (1/2) ! Suc 0
     = ComponentKey (''a'', 1/2)
   \<and> get_key name_time_key
     (with_layers [mk_component ''a'' 0 0 1 False, mk_component ''b'' 0 1 2 True]) (1/2) ! Suc 1
     = NoneKey"
  using get_key_window [of name_time_key
      "with_layers [mk_component ''a'' 0 0 1 False, mk_component ''b'' 0 1 2 True]" "1/2"]
  by (simp add: with_layers_def init_def mk_component_def name_time_key_def in_window_def)

text \<open>
  Claim C6: the time window is half-open. A component with offset 0, start time 1 and end
  time 2 has its own sub-key in the composite key at every \<open>t\<close> with \<open>1 \<le> t < 2\<close>, the
  time 1 included, and an absent element at every \<open>t < 1\<close> and at \<open>t = 2\<close>.
\<close>

theorem half_open_window:
  assumes "i < length (layers c)"
    and "offset (layers c ! i) = 0"
    and "start_time (layers c ! i) = 1"
    and "end_time (layers c ! i) = 2"
  shows "(1 \<le> t \<and> t < 2 \<longrightarrow> get_key ckey c t ! Suc i = ComponentKey (ckey (layers c ! i) t))
       \<and> (t < 1 \<or> t = 2 \<longrightarrow> get_key ckey c t ! Suc i = NoneKey)"
  using assms by (auto simp add: get_key_nth window_key_entry_def in_window_def)

theorem half_open_window_witness:
  "get_key name_time_key (with_layers [mk_component ''a'' 0 1 2 True]) 1 ! Suc 0
     = ComponentKey (''a'', 1)
   \<and> get_key name_time_key (with_layers [mk_component ''a'' 0 1 2 True]) 2 ! Suc 0 = NoneKey
   \<and> get_key name_time_key (with_layers [mk_component ''a'' 0 1 2 True]) (999/1000) ! Suc 0
       = NoneKey
   \<and> get_key name_time_key (with_layers [mk_component ''a'' 0 1 2 True]) (1999/1000) ! Suc 0
       = ComponentKey (''a'', 1999/1000)"
  using half_open_window [of 0 "with_layers [mk_component ''a'' 0 1 2 True]" 1 name_time_key]
    half_open_window [of 0 "with_layers [mk_component ''a'' 0 1 2 True]" 2 name_time_key]
    half_open_window [of 0 "with_layers [mk_component ''a'' 0 1 2 True]" "999/1000" name_time_key]
    half_open_window [of 0 "with_layers [mk_component ''a'' 0 1 2 True]" "1999/1000" name_time_key]
  by (simp add: with_layers_def init_def mk_component_def name_time_key_def)

section \<open>Properties of the name index and the layer sequence\<close>

lemma add_layer_never_raises:
  "\<exists>c' v. add_layer c lyr name_opt transform_opt off st end_opt vis mode origin = (c', Inr v)
      \<and> layers c' = layers c @ [v]"
  by (auto simp add: add_layer_def py_in_def Let_def)

lemma pop_layer_name_to_layer:
  "name_to_layer (fst (pop_layer held c nm)) = name_to_layer c"
  by (simp add: pop_layer_def split: option.splits)

lemma pop_layer_unknown_name:
  "\<not> weak_contains held c nm \<Longrightarrow> pop_layer held c nm = (c, Inl KeyError)"
  by (simp add: pop_layer_def)

lemma pop_layer_error_unchanged:
  "snd (pop_layer held c nm) = Inl e \<Longrightarrow> fst (pop_layer held c nm) = c"
  by (simp add: pop_layer_def split: if_splits option.splits)

text \<open>
  Claim C3 says that \<^verbatim>\<open>add_layer\<close> with a name already in use fails with a duplicate-name
  error and changes nothing. The source tests \<^verbatim>\<open>name in self._layers\<close>, a search for a string
  in a list of components, which finds nothing. On a composition whose only layer is named
  \<open>a\<close>, adding a layer with offset 1 under the name \<open>a\<close> returns a new component,
  appends it, and overwrites the entry of \<open>a\<close> in the name index: two layers are then
  named \<open>a\<close>.
\<close>

theorem add_layer_duplicate_name:
  "add_layer (with_layers [comp_a]) layer0 (Some ''a'') None 1 0 None True NORMAL CENTER
     = ((with_layers [comp_a])
          \<lparr>layers := [comp_a, mk_component ''a'' 1 0 2 True],
           name_to_layer := [''a'' \<mapsto> mk_component ''a'' 1 0 2 True]\<rparr>,
        Inr (mk_component ''a'' 1 0 2 True))
   \<and> keys (fst (add_layer (with_layers [comp_a]) layer0 (Some ''a'') None 1 0 None True
                  NORMAL CENTER))
     = [''a'', ''a'']
   \<and> getitem [] (with_layers [comp_a]) ''a'' = Inr comp_a"
  by (simp add: add_layer_def py_in_def Let_def with_layers_def init_def comp_a_def
      mk_component_def layer0_def keys_def image_iff getitem_def weak_get_def alive_def)

text \<open>
  Claim C4 says that after \<^verbatim>\<open>pop_layer(name)\<close> the name is gone from the layers and a
  lookup of it by \<^verbatim>\<open>__getitem__\<close> fails. \<^verbatim>\<open>pop_layer\<close> removes the component from the list
  only and leaves the weak name index to forget it. Popping the only layer \<open>a\<close> returns
  the component and empties the list; while the caller holds the returned component the
  lookup of \<open>a\<close> still returns it, and only once nothing holds it does the lookup fail.
\<close>

theorem pop_layer_name_still_resolves:
  "pop_layer [] (with_layers [comp_a]) ''a'' = (popped_a, Inr comp_a)
   \<and> keys popped_a = []
   \<and> getitem [comp_a] popped_a ''a'' = Inr comp_a
   \<and> getitem [] popped_a ''a'' = Inl KeyError"
  by (simp add: pop_layer_def weak_contains_def weak_get_def alive_def list_pop_def getitem_def
      with_layers_def init_def comp_a_def mk_component_def keys_def popped_a_def)

text \<open>
  Claim C9 says that \<^verbatim>\<open>pop_layer\<close> of a name that does not resolve to a direct layer fails
  with the not-found error and changes nothing. After the only layer \<open>a\<close> has been popped
  and is still held by the caller, \<open>a\<close> names no direct layer, yet the weak name index
  still has it: \<^verbatim>\<open>pop_layer\<close> passes its \<^verbatim>\<open>KeyError\<close> guard and fails in \<^verbatim>\<open>next\<close> with
  \<^verbatim>\<open>StopIteration\<close>. The composition is unchanged.
\<close>

theorem pop_layer_stale_name:
  "\<not> List.member (keys popped_a) ''a''
   \<and> pop_layer [comp_a] popped_a ''a'' = (popped_a, Inl StopIteration)"
  by (simp add: pop_layer_def weak_contains_def weak_get_def alive_def
      with_layers_def init_def comp_a_def mk_component_def keys_def popped_a_def)

text \<open>
  Claim C10: \<^verbatim>\<open>composition[key] = value\<close> with a component as value appends the value to
  the layers and maps \<open>key\<close> to it in the name index, whatever the key and whatever the
  layers already there; the lookup of \<open>key\<close> then returns the value. Nothing ties the key
  to the name of the value or keeps names unique: assigning the component named \<open>b\<close> to
  the key \<open>a\<close> of a composition with a layer \<open>a\<close> makes \<open>a\<close> resolve to the component
  \<open>b\<close> and leaves the name \<open>b\<close> of a direct layer unresolved, and assigning a second
  component named \<open>a\<close> gives two layers of that name.
\<close>

theorem setitem_component:
  "setitem c key (ValComponent v)
     = (c\<lparr>layers := layers c @ [v], name_to_layer := (name_to_layer c)(key \<mapsto> v)\<rparr>, Inr ())
   \<and> getitem held (fst (setitem c key (ValComponent v))) key = Inr v
   \<and> keys (fst (setitem c key (ValComponent v))) = keys c @ [name v]
   \<and> keys (fst (setitem (with_layers [comp_a]) ''a'' (ValComponent comp_b))) = [''a'', ''b'']
   \<and> getitem [] (fst (setitem (with_layers [comp_a]) ''a'' (ValComponent comp_b))) ''a''
       = Inr comp_b
   \<and> name comp_b \<noteq> ''a''
   \<and> getitem [] (fst (setitem (with_layers [comp_a]) ''a'' (ValComponent comp_b))) ''b''
       = Inl KeyError
   \<and> keys (fst (setitem (with_layers [comp_a]) ''a'' (ValComponent comp_a))) = [''a'', ''a'']"
  by (simp add: setitem_def getitem_def weak_get_def alive_def keys_def
      with_layers_def init_def comp_a_def comp_b_def mk_component_def)

section \<open>Properties of the scoped preview level\<close>

text \<open>
  Claim C7: on every exit of \<^verbatim>\<open>preview(level)\<close> and of \<^verbatim>\<open>final()\<close> the preview level is
  the one from before the scope, whether the block completes or raises and whatever the
  block did to the composition; for a positive level the block runs on the composition with
  its preview level set to \<open>level\<close> (to 1 for \<^verbatim>\<open>final\<close>), and its outcome is passed on.
\<close>

theorem preview_restores:
  "preview_level (fst (preview c level body)) = preview_level c
   \<and> preview_level (fst (final c body)) = preview_level c
   \<and> (0 < level \<longrightarrow>
        preview c level body
          = ((fst (body (c\<lparr>preview_level := level\<rparr>)))\<lparr>preview_level := preview_level c\<rparr>,
             snd (body (c\<lparr>preview_level := level\<rparr>))))
   \<and> final c body
          = ((fst (body (c\<lparr>preview_level := 1\<rparr>)))\<lparr>preview_level := preview_level c\<rparr>,
             snd (body (c\<lparr>preview_level := 1\<rparr>)))
   \<and> preview_level (c\<lparr>preview_level := level\<rparr>) = level"
  by (simp add: preview_def final_def Let_def split: prod.splits)

theorem preview_restores_witness:
  "preview (with_layers []) 4 (\<lambda>s. (s\<lparr>preview_level := 7\<rparr>, Some ValueError))
     = (with_layers [], Some ValueError)
   \<and> preview (with_layers []) 4 (\<lambda>s. (s, if preview_level s = 4 then None else Some ValueError))
     = (with_layers [], None)"
  using preview_restores [of "with_layers []" 4 "\<lambda>s. (s\<lparr>preview_level := 7\<rparr>, Some ValueError)"]
    preview_restores [of "with_layers []" 4
      "\<lambda>s. (s, if preview_level s = 4 then None else Some ValueError)"]
  by (simp add: with_layers_def init_def)

section \<open>Properties of rendering through the cache\<close>

lemma get_key_cache_update [simp]: "get_key ckey (c\<lparr>cache := ca\<rparr>) t = get_key ckey c t"
  by (simp add: get_key_def)

lemma recompute_state:
  "(fst (recompute composite cull c t shp key))\<lparr>cache := ca\<rparr> = c\<lparr>cache := ca\<rparr>"
  by (simp add: recompute_def Let_def split: sum.splits)

lemma call_state:
  "(fst (call ckey composite cull c t))\<lparr>cache := ca\<rparr> = c\<lparr>cache := ca\<rparr>"
  by (simp add: call_def Let_def recompute_state split: option.splits)

lemma np_zeros_shape:
  "np_zeros shp = Inr z \<Longrightarrow> map int (shape z) = shp"
proof -
  assume a: "np_zeros shp = Inr z"
  then have pos: "\<not> list_ex (\<lambda>d. d < 0) shp" and z: "shape z = map nat shp"
    by (auto simp add: np_zeros_def split: if_splits)
  from pos have "\<forall>d \<in> set shp. 0 \<le> d" by (auto simp add: list_ex_iff)
  then have "map int (map nat shp) = shp" by (induction shp) auto
  with z show ?thesis by simp
qed

lemma composite_loop_shape:
  "keeps_shape composite \<Longrightarrow> shape (composite_loop composite t L cs fr) = shape fr"
  by (induction cs arbitrary: fr) (simp_all add: keeps_shape_def)

lemma recompute_result:
  assumes "recompute composite cull c t shp key = (c', Inr fr)"
  shows "\<exists>z. np_zeros (shp @ [4]) = Inr z
           \<and> fr = composite_loop composite t (preview_level c) (layers c) z
           \<and> c' = c\<lparr>cache := cache_setitem cull (cache c) key fr\<rparr>"
  using assms by (auto simp add: recompute_def Let_def split: sum.splits)

lemma recompute_shape:
  assumes "keeps_shape composite" and "recompute composite cull c t shp key = (c', Inr fr)"
  shows "map int (shape fr) = shp @ [4]"
proof -
  from recompute_result [OF assms(2)] obtain z where
    z: "np_zeros (shp @ [4]) = Inr z"
    and fr: "fr = composite_loop composite t (preview_level c) (layers c) z"
    by blast
  from fr assms(1) have "shape fr = shape z" by (simp add: composite_loop_shape)
  with np_zeros_shape [OF z] show ?thesis by simp
qed

text \<open>The three ways in which \<^verbatim>\<open>__call__\<close> returns a frame: a cache hit at the working
  resolution, a hit at another resolution followed by eviction and rendering, and a miss
  followed by rendering.\<close>

lemma call_cases:
  assumes "call ckey composite cull c t = (c', Inr fr)"
  shows "(entries (cache c) (get_key ckey c t) = Some fr
            \<and> map int (take 2 (shape fr)) = current_shape c \<and> c' = c)
       \<or> ((\<exists>cached. entries (cache c) (get_key ckey c t) = Some cached
                \<and> map int (take 2 (shape cached)) \<noteq> current_shape c)
            \<and> recompute composite cull
                 (c\<lparr>cache := cache_delitem (cache c) (get_key ckey c t)\<rparr>) t
                 (current_shape c) (get_key ckey c t) = (c', Inr fr))
       \<or> (entries (cache c) (get_key ckey c t) = None
            \<and> recompute composite cull c t (current_shape c) (get_key ckey c t) = (c', Inr fr))"
  using assms
  by (auto simp add: call_def Let_def current_shape_def split: if_splits option.splits)

lemma rgba_shape:
  assumes "length (shape fr) = 3" and "shape fr ! 2 = 4"
    and "map int (take 2 (shape fr)) = [h, w]"
  shows "map int (shape fr) = [h, w, 4]"
proof -
  from assms(1) obtain a b d where abc: "shape fr = [a, b, d]"
    by (metis (no_types, opaque_lifting) length_0_conv length_Suc_conv numeral_3_eq_3)
  with assms show ?thesis by simp
qed

text \<open>The cache of a new composition holds frames of four channels only, and rendering
  keeps it so.\<close>

lemma rgba_frames_init: "rgba_frames (cache (init sz dur))"
  by (simp add: rgba_frames_def init_def)

lemma call_rgba_frames:
  assumes ks: "keeps_shape composite"
    and ce: "cull_only_evicts cull"
    and inv: "rgba_frames (cache c)"
  shows "rgba_frames (cache (fst (call ckey composite cull c t)))"
proof -
  have step: "rgba_frames (cache (fst (recompute composite cull c0 t (current_shape c) key)))"
    if inv0: "rgba_frames (cache c0)" for c0 key
  proof (cases "np_zeros (current_shape c @ [4])")
    case (Inl e)
    then show ?thesis using inv0 by (simp add: recompute_def)
  next
    case (Inr z)
    let ?fr = "composite_loop composite t (preview_level c0) (layers c0) z"
    have "shape ?fr = shape z" using ks by (simp add: composite_loop_shape)
    moreover have "map int (shape z) = current_shape c @ [4]" using np_zeros_shape [OF Inr] .
    ultimately have "map int (shape ?fr) = current_shape c @ [4]" by simp
    then have "length (map int (shape ?fr)) = 3" and "map int (shape ?fr) ! 2 = 4"
      by (simp_all add: current_shape_def)
    then have good: "length (shape ?fr) = 3 \<and> shape ?fr ! 2 = 4"
      by (auto simp add: nth_map)
    have "rgba_frames (cache_setitem cull (cache c0) key ?fr)"
      unfolding rgba_frames_def cache_setitem_def
    proof (intro allI impI)
      fix k f
      assume "entries (cull (cache c0\<lparr>entries := (entries (cache c0))(key \<mapsto> ?fr)\<rparr>)) k = Some f"
      with ce have "entries (cache c0\<lparr>entries := (entries (cache c0))(key \<mapsto> ?fr)\<rparr>) k = Some f"
        unfolding cull_only_evicts_def by blast
      then have "f = ?fr \<or> entries (cache c0) k = Some f" by (auto split: if_splits)
      with good inv0 show "length (shape f) = 3 \<and> shape f ! 2 = 4"
        unfolding rgba_frames_def by blast
    qed
    with Inr show ?thesis by (simp add: recompute_def Let_def)
  qed
  have del: "rgba_frames (cache_delitem (cache c) key)" for key
    using inv by (auto simp add: rgba_frames_def cache_delitem_def split: if_splits)
  show ?thesis
    using inv step [of c] step [of "c\<lparr>cache := cache_delitem (cache c) (get_key ckey c t)\<rparr>"] del
    by (simp add: call_def Let_def current_shape_def split: option.splits)
qed

text \<open>
  Claim C2: a frame returned by \<^verbatim>\<open>render(t)\<close> has the dimensions
  \<open>(height div L, width div L, 4)\<close> for the preview level \<open>L\<close> at the time of the call;
  a cached frame of another resolution is not returned: its entry is deleted and the frame
  is rendered anew at the working resolution. Compositing a component is taken to keep the
  shape of the frame, and the cache to hold frames of four channels, as it does from
  \<^verbatim>\<open>__init__\<close> on.
\<close>

theorem call_shape:
  assumes "keeps_shape composite"
    and "rgba_frames (cache c)"
    and "call ckey composite cull c t = (c', Inr fr)"
  shows "map int (shape fr)
           = [snd (size_wh c) div preview_level c, fst (size_wh c) div preview_level c, 4]
       \<and> (\<forall>cached. entries (cache c) (get_key ckey c t) = Some cached
              \<and> map int (take 2 (shape cached)) \<noteq> current_shape c
            \<longrightarrow> fr \<noteq> cached
               \<and> recompute composite cull
                    (c\<lparr>cache := cache_delitem (cache c) (get_key ckey c t)\<rparr>) t
                    (current_shape c) (get_key ckey c t) = (c', Inr fr)
               \<and> entries (cache_delitem (cache c) (get_key ckey c t)) (get_key ckey c t) = None)"
proof -
  have shp: "map int (shape fr) = current_shape c @ [4]"
    using call_cases [OF assms(3)]
  proof (elim disjE conjE exE)
    assume hit: "entries (cache c) (get_key ckey c t) = Some fr"
      and m: "map int (take 2 (shape fr)) = current_shape c"
    from hit assms(2) have "length (shape fr) = 3" and "shape fr ! 2 = 4"
      by (auto simp add: rgba_frames_def)
    with m show ?thesis using rgba_shape [of fr] by (simp add: current_shape_def)
  next
    fix cached
    assume "recompute composite cull (c\<lparr>cache := cache_delitem (cache c) (get_key ckey c t)\<rparr>) t
                 (current_shape c) (get_key ckey c t) = (c', Inr fr)"
    then show ?thesis using recompute_shape [OF assms(1)] by blast
  next
    assume "recompute composite cull c t (current_shape c) (get_key ckey c t) = (c', Inr fr)"
    then show ?thesis using recompute_shape [OF assms(1)] by blast
  qed
  have second: "fr \<noteq> cached
               \<and> recompute composite cull
                    (c\<lparr>cache := cache_delitem (cache c) (get_key ckey c t)\<rparr>) t
                    (current_shape c) (get_key ckey c t) = (c', Inr fr)
               \<and> entries (cache_delitem (cache c) (get_key ckey c t)) (get_key ckey c t) = None"
    if h: "entries (cache c) (get_key ckey c t) = Some cached"
      and m: "map int (take 2 (shape cached)) \<noteq> current_shape c" for cached
  proof -
    from shp have "map int (take 2 (shape fr)) = current_shape c"
      by (simp add: current_shape_def take_map [symmetric])
    with m have ne: "fr \<noteq> cached" by auto
    from call_cases [OF assms(3)] h m ne
    have "recompute composite cull
                    (c\<lparr>cache := cache_delitem (cache c) (get_key ckey c t)\<rparr>) t
                    (current_shape c) (get_key ckey c t) = (c', Inr fr)"
      by auto
    with ne show ?thesis by (simp add: cache_delitem_def)
  qed
  from shp second show ?thesis by (simp add: current_shape_def)
qed

theorem call_shape_witness:
  "call name_time_key brighten no_cull (small [comp_a] 2) 0 = (cached_low 2, Inr low_frame)
   \<and> call name_time_key brighten no_cull (cached_low 1) 0 = (cached_high 1, Inr high_frame)
   \<and> map int (shape low_frame) = [1, 2, 4]
   \<and> map int (shape high_frame) = [2, 4, 4]
   \<and> high_frame \<noteq> low_frame"
proof -
  have ks: "keeps_shape brighten" by (simp add: keeps_shape_def brighten_def)
  have inv2: "rgba_frames (cache (small [comp_a] 2))"
    by (simp add: rgba_frames_def small_def with_layers_def init_def)
  have r2: "call name_time_key brighten no_cull (small [comp_a] 2) 0
              = (cached_low 2, Inr low_frame)"
    by (simp add: eval_defs)
  have inv1: "rgba_frames (cache (cached_low 1))"
    by (simp add: rgba_frames_def cached_low_def low_frame_def)
  have r1: "call name_time_key brighten no_cull (cached_low 1) 0
              = (cached_high 1, Inr high_frame)"
    by (simp add: eval_defs)
  have hit: "entries (cache (cached_low 1)) (get_key name_time_key (cached_low 1) 0)
               = Some low_frame
     \<and> map int (take 2 (shape low_frame)) \<noteq> current_shape (cached_low 1)"
    by (simp add: eval_defs current_shape_def)
  from call_shape [OF ks inv2 r2] call_shape [OF ks inv1 r1] hit r2 r1
  show ?thesis
    by (simp add: small_def cached_low_def)
qed

text \<open>
  Claim C5: when \<^verbatim>\<open>render(t)\<close> has returned a frame and the composition is left as that
  call left it, a second \<^verbatim>\<open>render(t)\<close> returns the same frame and leaves the composition,
  its cache included, exactly as it was: nothing is stored and nothing is evicted.
  Compositing a component is taken to keep the shape of the frame, and the eviction of the
  cache to leave the entry of this key alone.
\<close>

theorem call_twice:
  assumes ks: "keeps_shape composite"
    and ck: "cull_keeps cull (get_key ckey c t)"
    and first: "call ckey composite cull c t = (c1, Inr fr)"
  shows "call ckey composite cull c1 t = (c1, Inr fr)"
proof -
  let ?key = "get_key ckey c t"
  have stored: "call ckey composite cull c1 t = (c1, Inr fr)"
    if r: "recompute composite cull c0 t (current_shape c) ?key = (c1, Inr fr)"
      and c0: "c0 = c\<lparr>cache := ca0\<rparr>" for c0 ca0
  proof -
    from recompute_result [OF r]
    have c1: "c1 = c0\<lparr>cache := cache_setitem cull (cache c0) ?key fr\<rparr>" by blast
    have "map int (shape fr) = current_shape c @ [4]" using recompute_shape [OF ks r] .
    then have "take 2 (map int (shape fr)) = current_shape c" by (simp add: current_shape_def)
    then have m: "map int (take 2 (shape fr)) = current_shape c" by (simp add: take_map)
    have "entries (cache c1) ?key
            = entries (cache c0\<lparr>entries := (entries (cache c0))(?key \<mapsto> fr)\<rparr>) ?key"
      using ck by (simp add: c1 cache_setitem_def cull_keeps_def)
    then have hit: "entries (cache c1) ?key = Some fr" by simp
    have k1: "get_key ckey c1 t = ?key" by (simp add: c1 c0)
    have sz: "size_wh c1 = size_wh c" by (simp add: c1 c0)
    have L: "preview_level c1 = preview_level c" by (simp add: c1 c0)
    from first have "preview_level c \<noteq> 0" by (auto simp add: call_def)
    with hit m k1 sz L show ?thesis
      by (simp add: call_def Let_def current_shape_def)
  qed
  from call_cases [OF first] show ?thesis
  proof (elim disjE conjE exE)
    assume "c1 = c"
    with first show ?thesis by simp
  next
    assume "recompute composite cull (c\<lparr>cache := cache_delitem (cache c) ?key\<rparr>) t
       (current_shape c) ?key = (c1, Inr fr)"
    then show ?thesis using stored by blast
  next
    assume "recompute composite cull c t (current_shape c) ?key = (c1, Inr fr)"
    then show ?thesis using stored [of c "cache c"] by simp
  qed
qed

theorem call_twice_witness:
  "call name_time_key brighten no_cull (cached_low 1) 0 = (cached_high 1, Inr high_frame)
   \<and> call name_time_key brighten no_cull (cached_high 1) 0 = (cached_high 1, Inr high_frame)"
proof -
  have ks: "keeps_shape brighten" by (simp add: keeps_shape_def brighten_def)
  have ck: "cull_keeps no_cull (get_key name_time_key (cached_low 1) 0)"
    by (simp add: cull_keeps_def no_cull_def)
  have first: "call name_time_key brighten no_cull (cached_low 1) 0
                 = (cached_high 1, Inr high_frame)"
    by (simp add: eval_defs)
  from call_twice [OF ks ck first] first show ?thesis by simp
qed

text \<open>
  Claim C8: \<^verbatim>\<open>render(t)\<close> changes nothing but the cache. After the call, whether it
  returned a frame or raised, the layer sequence, the name index, the size, the duration and
  the preview level are those from before; putting the old cache back gives the old
  composition.
\<close>

theorem call_only_cache:
  "layers (fst (call ckey composite cull c t)) = layers c
   \<and> name_to_layer (fst (call ckey composite cull c t)) = name_to_layer c
   \<and> size_wh (fst (call ckey composite cull c t)) = size_wh c
   \<and> duration (fst (call ckey composite cull c t)) = duration c
   \<and> preview_level (fst (call ckey composite cull c t)) = preview_level c
   \<and> (fst (call ckey composite cull c t))\<lparr>cache := cache c\<rparr> = c"
proof -
  let ?c' = "fst (call ckey composite cull c t)"
  have eq: "?c'\<lparr>cache := cache c\<rparr> = c"
    using call_state [where ca = "cache c" and c = c] by simp
  have "layers (?c'\<lparr>cache := cache c\<rparr>) = layers c" by (rule arg_cong [OF eq])
  then have 1: "layers ?c' = layers c" by simp
  have "name_to_layer (?c'\<lparr>cache := cache c\<rparr>) = name_to_layer c" by (rule arg_cong [OF eq])
  then have 2: "name_to_layer ?c' = name_to_layer c" by simp
  have "size_wh (?c'\<lparr>cache := cache c\<rparr>) = size_wh c" by (rule arg_cong [OF eq])
  then have 3: "size_wh ?c' = size_wh c" by simp
  have "duration (?c'\<lparr>cache := cache c\<rparr>) = duration c" by (rule arg_cong [OF eq])
  then have 4: "duration ?c' = duration c" by simp
  have "preview_level (?c'\<lparr>cache := cache c\<rparr>) = preview_level c" by (rule arg_cong [OF eq])
  then have 5: "preview_level ?c' = preview_level c" by simp
  from 1 2 3 4 5 eq show ?thesis by blast
qed

end
